theory Spec2Isabelle
  imports Main "HOL-Library.Word"
begin

section \<open>The chat composer (src/components/ChatInput.tsx)\<close>

text \<open>
  A shallow embedding of the \<^verbatim>\<open>ChatInput\<close> React component. The props that the
  caller owns (\<^verbatim>\<open>value\<close>, \<^verbatim>\<open>isLoading\<close>, \<^verbatim>\<open>selectedModel\<close>), the component's
  \<^verbatim>\<open>useState\<close> cells and the part of the browser the handlers touch (the registry of
  object URLs, the height of the textarea) are the fields of one record; every handler
  is a function from that record to the updated record. A handler of the rendered
  elements runs in the closure of the latest render, so it reads the fields as they
  are when it is called. Two closures outlive their render. \<^verbatim>\<open>handleSend\<close> is suspended
  and resumed: what it captured when it was called is kept in a task record until its
  file reads have finished. The handlers of a speech recognizer are given to it when
  it is built: they read the \<^verbatim>\<open>value\<close> of that render, which the recognizer record
  keeps.
\<close>

subsection \<open>Strings\<close>

text \<open>
  A JavaScript string is a sequence of UTF-16 code units. \<open>js\<close> turns an ASCII literal
  into such a sequence.
\<close>

type_synonym code_unit = "16 word"
type_synonym jsstring = "code_unit list"

definition js :: "string \<Rightarrow> jsstring" where
  "js s = map of_char s"

text \<open>
  \<^verbatim>\<open>String.prototype.trim\<close> strips WhiteSpace and LineTerminator code points
  (ECMAScript 2015, 21.1.3.25) from both ends.
\<close>

definition isWhiteSpace :: "code_unit \<Rightarrow> bool" where
  "isWhiteSpace c \<longleftrightarrow>
     c \<in> {0x0009, 0x000A, 0x000B, 0x000C, 0x000D, 0x0020, 0x00A0, 0x1680,
          0x2028, 0x2029, 0x202F, 0x205F, 0x3000, 0xFEFF}
     \<or> (0x2000 \<le> c \<and> c \<le> 0x200A)"

definition trim :: "jsstring \<Rightarrow> jsstring" where
  "trim s = rev (dropWhile isWhiteSpace (rev (dropWhile isWhiteSpace s)))"

text \<open>\<^verbatim>\<open>s.split(sep)\<close> for a separator of one code unit: never an empty array.\<close>

fun split :: "code_unit \<Rightarrow> jsstring \<Rightarrow> jsstring list" where
  "split sep [] = [[]]"
| "split sep (c # cs) =
     (if c = sep then [] # split sep cs
      else (case split sep cs of
              [] \<Rightarrow> [[c]]
            | p # ps \<Rightarrow> (c # p) # ps))"

text \<open>Reading an array at an index: \<^verbatim>\<open>undefined\<close> (here \<open>None\<close>) out of range.\<close>

definition at_index :: "'a list \<Rightarrow> int \<Rightarrow> 'a option" where
  "at_index xs i = (if 0 \<le> i \<and> i < int (length xs) then Some (xs ! nat i) else None)"

text \<open>\<^verbatim>\<open>xs.filter((_, i) => p(i))\<close>: the elements whose index satisfies \<open>p\<close>, in order.\<close>

fun filter_index :: "(int \<Rightarrow> bool) \<Rightarrow> int \<Rightarrow> 'a list \<Rightarrow> 'a list" where
  "filter_index p i [] = []"
| "filter_index p i (x # xs) =
     (if p i then x # filter_index p (i + 1) xs else filter_index p (i + 1) xs)"

subsection \<open>Data\<close>

text \<open>
  A \<^verbatim>\<open>File\<close> the user picked. \<open>file_type\<close> is \<^verbatim>\<open>file.type\<close>; \<open>reader_result\<close> is
  what \<^verbatim>\<open>reader.result\<close> holds when \<^verbatim>\<open>FileReader.readAsDataURL(file)\<close> fires
  \<^verbatim>\<open>loadend\<close>: the data URL, or \<^verbatim>\<open>null\<close> (here \<open>None\<close>) when the read failed.
\<close>

record image_file =
  file_type :: jsstring
  reader_result :: "jsstring option"

text \<open>\<^verbatim>\<open>Part\<close>, as \<^verbatim>\<open>handleSend\<close> builds it: \<^verbatim>\<open>{ inlineData: { data, mimeType } }\<close>.\<close>

datatype part = InlineData (data: "jsstring option") (mimeType: jsstring)

text \<open>
  An object URL (\<^verbatim>\<open>blob:...\<close>) is represented by the serial number under which the
  browser registered it.
\<close>

type_synonym url = nat

text \<open>
  A \<^verbatim>\<open>SpeechRecognition\<close> object built by the effect of lines 124 to 143: its serial
  number, and the \<^verbatim>\<open>value\<close> that its \<^verbatim>\<open>onresult\<close> handler captured.
\<close>

record recognizer =
  rec_id :: nat
  rec_value :: jsstring

text \<open>
  A call of \<^verbatim>\<open>handleSend\<close> that is past its gate and waits for a file read: the
  \<^verbatim>\<open>value\<close> its closure captured, the files of \<^verbatim>\<open>selectedImages\<close> the loop has not
  finished (the first one is being read) and the \<^verbatim>\<open>imageParts\<close> pushed so far.
\<close>

record send_task =
  task_value :: jsstring
  task_files :: "image_file list"
  task_parts :: "part list"

record composer =
  value_prop :: jsstring
  isLoading :: bool
  selectedModel :: jsstring
  isListening :: bool
  showModelDropdown :: bool
  selectedImages :: "image_file list"
  imagePreviews :: "url list"
  lineCount :: nat
  isExpanded :: bool
  style_height :: nat
  objectURLs :: "url set"
  nextURL :: url
  sent :: "(jsstring \<times> part list option) list"
  pending :: "send_task list"
  recognitionRef :: "recognizer option"
  nextRecognizer :: nat
  started :: "recognizer list"

text \<open>
  \<open>value_prop\<close> is the prop \<^verbatim>\<open>value\<close> (the draft text); \<open>style_height\<close> is
  \<^verbatim>\<open>textareaRef.current.style.height\<close> in pixels; \<open>objectURLs\<close> are the object URLs
  that are registered and not revoked, \<open>nextURL\<close> the serial number of the next one;
  \<open>sent\<close> lists the invocations of \<^verbatim>\<open>onSendMessage\<close> in order, each with its two
  arguments (\<open>None\<close> for \<^verbatim>\<open>undefined\<close>); \<open>pending\<close> are the suspended calls of
  \<^verbatim>\<open>handleSend\<close>; \<open>recognitionRef\<close> is \<^verbatim>\<open>recognitionRef.current\<close> (\<open>None\<close> for
  \<^verbatim>\<open>null\<close>), \<open>nextRecognizer\<close> the serial number of the next recognizer, and
  \<open>started\<close> are the recognizers on which \<^verbatim>\<open>start()\<close> was called and no \<^verbatim>\<open>end\<close> event
  has fired yet.
\<close>

subsection \<open>The caller's callbacks\<close>

text \<open>
  Modelled from the spec: the parent component that passes \<^verbatim>\<open>onChange\<close>,
  \<^verbatim>\<open>onSendMessage\<close> and \<^verbatim>\<open>onModelChange\<close> is not among the source files.
  \<^verbatim>\<open>updateText(newText)\<close> replaces Draft.text.
\<close>

definition onChange :: "jsstring \<Rightarrow> composer \<Rightarrow> composer" where
  "onChange v w = w\<lparr>value_prop := v\<rparr>"

text \<open>
  Modelled from the spec: MessageSender accepts (text, optional list of attachments);
  the send-in-flight machine is Idle, Sending, Idle, and the \<^verbatim>\<open>isLoading\<close> flag is
  supplied by the caller, so the flag is up once the sender has been invoked.
\<close>

definition onSendMessage :: "jsstring \<Rightarrow> part list option \<Rightarrow> composer \<Rightarrow> composer" where
  "onSendMessage text parts w = w\<lparr>sent := sent w @ [(text, parts)], isLoading := True\<rparr>"

text \<open>Modelled from the spec: selecting an entry updates SelectedModel.\<close>

definition onModelChange :: "jsstring \<Rightarrow> composer \<Rightarrow> composer" where
  "onModelChange m w = w\<lparr>selectedModel := m\<rparr>"

subsection \<open>The browser's object URLs\<close>

definition createObjectURL :: "image_file \<Rightarrow> composer \<Rightarrow> url \<times> composer" where
  "createObjectURL f w =
     (nextURL w, w\<lparr>objectURLs := insert (nextURL w) (objectURLs w), nextURL := nextURL w + 1\<rparr>)"

text \<open>
  \<^verbatim>\<open>URL.revokeObjectURL(u)\<close>. The argument \<^verbatim>\<open>undefined\<close> is converted to the string
  "undefined", which is no registered object URL: nothing is revoked, nothing is thrown.
\<close>

definition revokeObjectURL :: "url option \<Rightarrow> composer \<Rightarrow> composer" where
  "revokeObjectURL u w =
     (case u of None \<Rightarrow> w | Some x \<Rightarrow> w\<lparr>objectURLs := objectURLs w - {x}\<rparr>)"

subsection \<open>Attachments\<close>

text \<open>\<^verbatim>\<open>files.map(file => URL.createObjectURL(file))\<close>\<close>

fun createObjectURLs :: "image_file list \<Rightarrow> composer \<Rightarrow> url list \<times> composer" where
  "createObjectURLs [] w = ([], w)"
| "createObjectURLs (f # fs) w =
     (case createObjectURL f w of
        (u, w') \<Rightarrow> (case createObjectURLs fs w' of (us, w'') \<Rightarrow> (u # us, w'')))"

text \<open>\<^verbatim>\<open>handleImageSelect\<close>; the argument is \<^verbatim>\<open>e.target.files\<close>, which may be \<^verbatim>\<open>null\<close>.\<close>

definition handleImageSelect :: "image_file list option \<Rightarrow> composer \<Rightarrow> composer" where
  "handleImageSelect fl w =
     (case fl of
        None \<Rightarrow> w
      | Some files \<Rightarrow>
          (case createObjectURLs files (w\<lparr>selectedImages := selectedImages w @ files\<rparr>) of
             (newPreviews, w') \<Rightarrow> w'\<lparr>imagePreviews := imagePreviews w' @ newPreviews\<rparr>))"

text \<open>
  \<^verbatim>\<open>removeImage\<close>. The index is a JavaScript number; the integers are modelled, the
  negative ones with them. Both state updates read the list as it is when they run.
\<close>

definition removeImage :: "int \<Rightarrow> composer \<Rightarrow> composer" where
  "removeImage index w =
     (let w1 = w\<lparr>selectedImages := filter_index (\<lambda>i. i \<noteq> index) 0 (selectedImages w)\<rparr>;
          prev = imagePreviews w1;
          w2 = revokeObjectURL (at_index prev index) w1
      in w2\<lparr>imagePreviews := filter_index (\<lambda>i. i \<noteq> index) 0 prev\<rparr>)"

subsection \<open>Sending\<close>

text \<open>
  The loop body after the awaited promise has resolved with
  \<^verbatim>\<open>result.split(',')[1]\<close>: the part pushed for \<open>f\<close>.
\<close>

definition encode :: "image_file \<Rightarrow> jsstring \<Rightarrow> part" where
  "encode f result = InlineData (at_index (split 0x2C result) 1) (file_type f)"

text \<open>Lines 211 to 214: the calls after the loop.\<close>

definition finish :: "send_task \<Rightarrow> composer \<Rightarrow> composer" where
  "finish t w =
     (let imageParts = task_parts t;
          w1 = onSendMessage (task_value t)
                 (if length imageParts > 0 then Some imageParts else None) w;
          w2 = onChange [] w1
      in w2\<lparr>selectedImages := [], imagePreviews := []\<rparr>)"

text \<open>
  \<^verbatim>\<open>handleSend\<close> up to its first \<^verbatim>\<open>await\<close>. With no file the loop body never runs and
  the function runs to its end at once; otherwise the call is suspended on the read
  of the first file.
\<close>

definition gate :: "composer \<Rightarrow> bool" where
  "gate w \<longleftrightarrow> (trim (value_prop w) = [] \<and> length (selectedImages w) = 0) \<or> isLoading w"

definition handleSend :: "composer \<Rightarrow> composer" where
  "handleSend w =
     (if gate w then w
      else (let t = \<lparr>task_value = value_prop w, task_files = selectedImages w, task_parts = []\<rparr>
            in if task_files t = [] then finish t w
               else w\<lparr>pending := pending w @ [t]\<rparr>))"

text \<open>
  The \<^verbatim>\<open>loadend\<close> event of the reader that the \<open>k\<close>-th suspended call waits for.
  When \<^verbatim>\<open>reader.result\<close> is \<^verbatim>\<open>null\<close>, \<^verbatim>\<open>result.split\<close> throws inside the event
  handler, \<^verbatim>\<open>resolve\<close> is never called and the call stays suspended for ever.
  Otherwise the promise resolves, the part is pushed, and the loop goes on: to the
  next read, or past the loop to the calls of \<open>finish\<close>.
\<close>

definition loadend :: "nat \<Rightarrow> composer \<Rightarrow> composer" where
  "loadend k w =
     (if k < length (pending w) then
        (let t = pending w ! k in
         case task_files t of
           [] \<Rightarrow> w
         | f # fs \<Rightarrow>
             (case reader_result f of
                None \<Rightarrow> w
              | Some result \<Rightarrow>
                  (let t' = t\<lparr>task_files := fs, task_parts := task_parts t @ [encode f result]\<rparr>
                   in if fs = []
                      then finish t' (w\<lparr>pending := take k (pending w) @ drop (Suc k) (pending w)\<rparr>)
                      else w\<lparr>pending := (pending w)[k := t']\<rparr>)))
      else w)"

text \<open>\<open>n\<close> successive \<^verbatim>\<open>loadend\<close> events for the \<open>k\<close>-th suspended call.\<close>

fun loadends :: "nat \<Rightarrow> nat \<Rightarrow> composer \<Rightarrow> composer" where
  "loadends k 0 w = w"
| "loadends k (Suc n) w = loadends k n (loadend k w)"

text \<open>The parts of a whole list of files, when every read succeeds.\<close>

fun encode_all :: "image_file list \<Rightarrow> part list option" where
  "encode_all [] = Some []"
| "encode_all (f # fs) =
     (case reader_result f of
        None \<Rightarrow> None
      | Some result \<Rightarrow> map_option ((#) (encode f result)) (encode_all fs))"

subsection \<open>Keyboard\<close>

record keyboard_event =
  key :: jsstring
  shiftKey :: bool

text \<open>
  \<^verbatim>\<open>handleKeyDown\<close>; the first component of the result tells whether
  \<^verbatim>\<open>e.preventDefault()\<close> was called.
\<close>

definition handleKeyDown :: "keyboard_event \<Rightarrow> composer \<Rightarrow> bool \<times> composer" where
  "handleKeyDown e w =
     (if key e = js ''Enter'' \<and> \<not> shiftKey e then (True, handleSend w) else (False, w))"

subsection \<open>Height of the textarea\<close>

text \<open>
  The height the first effect gives the textarea, in pixels. \<open>scrollHeight\<close> is what
  \<^verbatim>\<open>textareaRef.current.scrollHeight\<close> reads after the height was set to 40px.
  The textarea is rendered in every state, so \<^verbatim>\<open>textareaRef.current\<close> is set when
  the effect runs.
\<close>

definition newHeight :: "bool \<Rightarrow> jsstring \<Rightarrow> nat \<Rightarrow> nat" where
  "newHeight expanded v scrollHeight =
     (if expanded then 480
      else if v = [] \<or> trim v = [] then 40
      else min scrollHeight 180)"

text \<open>
  The effect itself; \<open>scrollHeight'\<close> is the second reading of
  \<^verbatim>\<open>scrollHeight\<close>, for the line count (\<^verbatim>\<open>Math.ceil(scrollHeight / 24)\<close>).
\<close>

definition heightEffect :: "nat \<Rightarrow> nat \<Rightarrow> composer \<Rightarrow> composer" where
  "heightEffect scrollHeight scrollHeight' w =
     w\<lparr>style_height := newHeight (isExpanded w) (value_prop w) scrollHeight,
       lineCount := (scrollHeight' + 23) div 24\<rparr>"

subsection \<open>Dictation\<close>

datatype error = TypeError | InvalidStateError

text \<open>
  The effect of lines 124 to 143. It runs after the first render and after every
  render in which \<^verbatim>\<open>value\<close> has changed; \<open>supported\<close> tells whether the browser has
  the speech API. It builds a new recognizer, whose \<^verbatim>\<open>onresult\<close> handler closes over
  the \<^verbatim>\<open>value\<close> of this render, and stores it in \<^verbatim>\<open>recognitionRef.current\<close>. The
  effect has no cleanup: a recognizer that an earlier run built and that was started
  is neither stopped nor given new handlers.
\<close>

definition recognitionEffect :: "bool \<Rightarrow> composer \<Rightarrow> composer" where
  "recognitionEffect supported w =
     (if supported
      then w\<lparr>recognitionRef := Some \<lparr>rec_id = nextRecognizer w, rec_value = value_prop w\<rparr>,
             nextRecognizer := nextRecognizer w + 1\<rparr>
      else w)"

text \<open>
  \<^verbatim>\<open>toggleListening\<close>. \<^verbatim>\<open>stop()\<close> only asks the platform to end the session, which it
  does with the \<^verbatim>\<open>end\<close> event; \<^verbatim>\<open>start()\<close> on an object that is already started
  throws.
\<close>

definition toggleListening :: "composer \<Rightarrow> error + composer" where
  "toggleListening w =
     (if isListening w then Inr w
      else (case recognitionRef w of
              None \<Rightarrow> Inr w
            | Some r \<Rightarrow>
                if r \<in> set (started w) then Inl InvalidStateError
                else Inr (w\<lparr>started := started w @ [r]\<rparr>)))"

text \<open>The handlers of a recognizer; the platform calls them on a started recognizer.\<close>

definition onstart :: "composer \<Rightarrow> composer" where
  "onstart w = w\<lparr>isListening := True\<rparr>"

text \<open>With the \<^verbatim>\<open>end\<close> event the recognizer \<open>r\<close> is no longer started.\<close>

definition onend :: "recognizer \<Rightarrow> composer \<Rightarrow> composer" where
  "onend r w = w\<lparr>isListening := False, started := removeAll r (started w)\<rparr>"

definition onerror :: "composer \<Rightarrow> composer" where
  "onerror w = w\<lparr>isListening := False\<rparr>"

text \<open>
  \<^verbatim>\<open>onresult\<close> of the recognizer \<open>r\<close>; the event is given by \<^verbatim>\<open>event.results\<close>, each
  result being the list of the transcripts of its alternatives.
  \<^verbatim>\<open>event.results[0][0]\<close> throws on an empty list. The \<^verbatim>\<open>value\<close> in the handler is the
  one that \<open>r\<close> captured when it was built, not the draft text at the time of the
  event.
\<close>

definition onresult :: "recognizer \<Rightarrow> jsstring list list \<Rightarrow> composer \<Rightarrow> error + composer" where
  "onresult r results w =
     (case results of
        [] \<Rightarrow> Inl TypeError
      | res # _ \<Rightarrow>
          (case res of
             [] \<Rightarrow> Inl TypeError
           | transcript # _ \<Rightarrow>
               Inr (onChange (rec_value r @ (if rec_value r \<noteq> [] then js '' '' else [])
                                @ transcript) w)))"

subsection \<open>Model selector\<close>

record gemini_model =
  model_id :: jsstring
  model_name :: jsstring

definition GEMINI_MODELS :: "gemini_model list" where
  "GEMINI_MODELS =
     [\<lparr>model_id = js ''gemini-2.5-flash'', model_name = js ''Gemini 2.5 Flash''\<rparr>,
      \<lparr>model_id = js ''gemini-2.0-flash-exp'', model_name = js ''Gemini 2.0 Flash Exp''\<rparr>,
      \<lparr>model_id = js ''gemma-3-27b-it'', model_name = js ''Gemma 3 27B''\<rparr>]"

text \<open>
  \<^verbatim>\<open>GEMINI_MODELS.find(m => m.id === selectedModel)?.name || 'gemma-3-27b-it'\<close>:
  the fallback is taken when nothing is found and when the name is the empty string.
\<close>

definition selectedModelName :: "jsstring \<Rightarrow> jsstring" where
  "selectedModelName sel =
     (case find (\<lambda>m. model_id m = sel) GEMINI_MODELS of
        None \<Rightarrow> js ''gemma-3-27b-it''
      | Some m \<Rightarrow> if model_name m = [] then js ''gemma-3-27b-it'' else model_name m)"

text \<open>The \<^verbatim>\<open>onClick\<close> of the dropdown entry of model \<open>m\<close>.\<close>

definition selectModel :: "gemini_model \<Rightarrow> composer \<Rightarrow> composer" where
  "selectModel m w = (onModelChange (model_id m) w)\<lparr>showModelDropdown := False\<rparr>"

subsection \<open>The other controls\<close>

text \<open>The fullscreen button and the button of the model selector.\<close>

definition toggleExpanded :: "composer \<Rightarrow> composer" where
  "toggleExpanded w = w\<lparr>isExpanded := \<not> isExpanded w\<rparr>"

definition toggleModelDropdown :: "composer \<Rightarrow> composer" where
  "toggleModelDropdown w = w\<lparr>showModelDropdown := \<not> showModelDropdown w\<rparr>"

text \<open>
  \<^verbatim>\<open>handleClickOutside\<close>; \<open>outside\<close> tells whether \<^verbatim>\<open>dropdownRef.current\<close> is set and
  does not contain the target of the event.
\<close>

definition handleClickOutside :: "bool \<Rightarrow> composer \<Rightarrow> composer" where
  "handleClickOutside outside w = (if outside then w\<lparr>showModelDropdown := False\<rparr> else w)"

text \<open>
  Modelled from the spec: the caller, which is not among the source files, takes
  the send-in-flight machine from Sending back to Idle when its send has completed.
\<close>

definition sendCompleted :: "composer \<Rightarrow> composer" where
  "sendCompleted w = w\<lparr>isLoading := False\<rparr>"

subsection \<open>The first render\<close>

text \<open>
  The state in which the component is mounted on an empty draft: the initial values
  of the \<^verbatim>\<open>useState\<close> cells, the textarea at the height and the line count the
  first run of the height effect gives it (it measures 40px), nothing sent, no object
  URL registered and no recognizer built yet.
\<close>

definition initial :: "jsstring \<Rightarrow> composer" where
  "initial m =
     \<lparr>value_prop = [], isLoading = False, selectedModel = m, isListening = False,
      showModelDropdown = False, selectedImages = [], imagePreviews = [], lineCount = 2,
      isExpanded = False, style_height = 40, objectURLs = {}, nextURL = 0, sent = [],
      pending = [], recognitionRef = None, nextRecognizer = 0, started = []\<rparr>"

subsection \<open>Reachable states\<close>

text \<open>Every attachment has its preview: the two lists have the same length.\<close>

definition attachments_paired :: "composer \<Rightarrow> bool" where
  "attachments_paired w \<longleftrightarrow> length (imagePreviews w) = length (selectedImages w)"

text \<open>The states the component gets into from its first render, event by event.\<close>

inductive reachable :: "composer \<Rightarrow> bool" where
  r_initial: "reachable (initial m)"
| r_onChange: "reachable w \<Longrightarrow> reachable (onChange v w)"
| r_handleImageSelect: "reachable w \<Longrightarrow> reachable (handleImageSelect fl w)"
| r_removeImage: "reachable w \<Longrightarrow> reachable (removeImage index w)"
| r_handleSend: "reachable w \<Longrightarrow> reachable (handleSend w)"
| r_loadend: "reachable w \<Longrightarrow> reachable (loadend k w)"
| r_handleKeyDown: "reachable w \<Longrightarrow> reachable (snd (handleKeyDown e w))"
| r_heightEffect: "reachable w \<Longrightarrow> reachable (heightEffect sh sh' w)"
| r_recognitionEffect: "reachable w \<Longrightarrow> reachable (recognitionEffect supported w)"
| r_toggleListening: "reachable w \<Longrightarrow> toggleListening w = Inr w' \<Longrightarrow> reachable w'"
| r_onstart: "reachable w \<Longrightarrow> r \<in> set (started w) \<Longrightarrow> reachable (onstart w)"
| r_onend: "reachable w \<Longrightarrow> r \<in> set (started w) \<Longrightarrow> reachable (onend r w)"
| r_onerror: "reachable w \<Longrightarrow> r \<in> set (started w) \<Longrightarrow> reachable (onerror w)"
| r_onresult:
    "reachable w \<Longrightarrow> r \<in> set (started w) \<Longrightarrow> onresult r results w = Inr w' \<Longrightarrow> reachable w'"
| r_selectModel: "reachable w \<Longrightarrow> reachable (selectModel m w)"
| r_toggleExpanded: "reachable w \<Longrightarrow> reachable (toggleExpanded w)"
| r_toggleModelDropdown: "reachable w \<Longrightarrow> reachable (toggleModelDropdown w)"
| r_handleClickOutside: "reachable w \<Longrightarrow> reachable (handleClickOutside outside w)"
| r_sendCompleted: "reachable w \<Longrightarrow> reachable (sendCompleted w)"

subsection \<open>Example inputs\<close>

definition png :: image_file where
  "png = \<lparr>file_type = js ''image/png'',
           reader_result = Some (js ''data:image/png;base64,iVBORw0KGgo='')\<rparr>"

definition jpeg :: image_file where
  "jpeg = \<lparr>file_type = js ''image/jpeg'',
            reader_result = Some (js ''data:image/jpeg;base64,/9j/4AAQ'')\<rparr>"

text \<open>A file whose read fails (it was deleted after it was picked, say).\<close>

definition unreadable :: image_file where
  "unreadable = \<lparr>file_type = js ''image/png'', reader_result = None\<rparr>"

definition mounted :: composer where
  "mounted = initial (js ''gemini-2.5-flash'')"

text \<open>The draft "Hello" with no attachment; empty drafts with one and with two attachments.\<close>

definition hello :: composer where
  "hello = onChange (js ''Hello'') mounted"

definition one_image :: composer where
  "one_image = handleImageSelect (Some [png]) mounted"

definition two_images :: composer where
  "two_images = handleImageSelect (Some [png, jpeg]) mounted"

definition one_unreadable :: composer where
  "one_unreadable = handleImageSelect (Some [unreadable]) mounted"

text \<open>
  Dictation is started on the empty draft, and the user types "abc" while the
  recognizer listens: the effect builds a second recognizer, the first is still the
  started one.
\<close>

definition recognizer0 :: recognizer where
  "recognizer0 = \<lparr>rec_id = 0, rec_value = []\<rparr>"

definition listening :: composer where
  "listening = onstart ((recognitionEffect True mounted)\<lparr>started := [recognizer0]\<rparr>)"

definition typed_while_listening :: composer where
  "typed_while_listening = recognitionEffect True (onChange (js ''abc'') listening)"

text \<open>A draft of eight lines, and a longer draft of one line.\<close>

definition one_long_line :: jsstring where
  "one_long_line = js ''Hello there, world''"


definition eight_lines :: jsstring where
  "eight_lines =
     js ''1'' @ [0x000A] @ js ''2'' @ [0x000A] @ js ''3'' @ [0x000A] @ js ''4'' @ [0x000A]
     @ js ''5'' @ [0x000A] @ js ''6'' @ [0x000A] @ js ''7'' @ [0x000A] @ js ''8''"

section \<open>Properties\<close>

lemmas unfold_all =
  handleImageSelect_def createObjectURL_def handleSend_def gate_def loadend_def
  finish_def onSendMessage_def onChange_def initial_def trim_def isWhiteSpace_def encode_def
  at_index_def
  Let_def js_def png_def jpeg_def unreadable_def mounted_def hello_def one_image_def
  two_images_def one_unreadable_def eight_lines_def one_long_line_def recognizer0_def
  listening_def typed_while_listening_def recognitionEffect_def toggleListening_def
  onstart_def onresult_def

subsection \<open>Helper lemmas\<close>

lemma sent_finish:
  "sent (finish t w) =
     sent w @ [(task_value t, if task_parts t = [] then None else Some (task_parts t))]"
  by (simp add: finish_def onSendMessage_def onChange_def Let_def)

lemma encode_all_length: "encode_all fs = Some ps \<Longrightarrow> length ps = length fs"
  by (induction fs arbitrary: ps) (auto split: option.splits)

text \<open>
  A suspended call whose remaining files are all readable runs to its end after
  as many \<^verbatim>\<open>loadend\<close> events as it has files left.
\<close>

lemma loadends_pending:
  assumes "k < length (pending w)" and "task_files (pending w ! k) = fs" and "fs \<noteq> []"
    and "encode_all fs = Some ps"
  shows "loadends k (length fs) w =
           finish ((pending w ! k)\<lparr>task_files := [],
                                   task_parts := task_parts (pending w ! k) @ ps\<rparr>)
             (w\<lparr>pending := take k (pending w) @ drop (Suc k) (pending w)\<rparr>)"
  using assms
proof (induction fs arbitrary: w ps)
  case Nil
  then show ?case by simp
next
  case (Cons f fs)
  from Cons.prems(4) obtain r ps' where r: "reader_result f = Some r"
    and ps': "encode_all fs = Some ps'" and ps: "ps = encode f r # ps'"
    by (auto split: option.splits)
  let ?t = "pending w ! k"
  let ?t' = "?t\<lparr>task_files := fs, task_parts := task_parts ?t @ [encode f r]\<rparr>"
  show ?case
  proof (cases "fs = []")
    case True
    with ps' have "ps' = []" by simp
    with True Cons.prems(1,2) r ps show ?thesis
      by (simp add: loadend_def Let_def)
  next
    case False
    let ?w' = "w\<lparr>pending := (pending w)[k := ?t']\<rparr>"
    from False Cons.prems(1,2) r have step: "loadend k w = ?w'"
      by (simp add: loadend_def Let_def)
    have k': "k < length (pending ?w')" using Cons.prems(1) by simp
    have tk: "pending ?w' ! k = ?t'" using Cons.prems(1) by simp
    have fs': "task_files (pending ?w' ! k) = fs" using tk by simp
    from Cons.IH [OF k' fs' False ps']
    have "loadends k (length fs) ?w' =
            finish ((pending ?w' ! k)\<lparr>task_files := [],
                                      task_parts := task_parts (pending ?w' ! k) @ ps'\<rparr>)
              (?w'\<lparr>pending := take k (pending ?w') @ drop (Suc k) (pending ?w')\<rparr>)" .
    then show ?thesis
      using step tk ps by simp
  qed
qed

lemma filter_index_outside:
  "index < k \<or> k + int (length xs) \<le> index \<Longrightarrow> filter_index (\<lambda>i. i \<noteq> index) k xs = xs"
  by (induction xs arbitrary: k) auto

lemma filter_index_inside:
  "k \<le> index \<Longrightarrow> index < k + int (length xs) \<Longrightarrow>
   filter_index (\<lambda>i. i \<noteq> index) k xs =
     take (nat (index - k)) xs @ drop (Suc (nat (index - k))) xs"
proof (induction xs arbitrary: k)
  case Nil
  then show ?case by simp
next
  case (Cons x xs)
  show ?case
  proof (cases "k = index")
    case True
    then show ?thesis by (simp add: filter_index_outside)
  next
    case False
    with Cons.prems have a: "k + 1 \<le> index" and b: "index < (k + 1) + int (length xs)"
      by auto
    from False Cons.prems have c: "nat (index - k) = Suc (nat (index - (k + 1)))" by auto
    from Cons.IH [OF a b] False show ?thesis by (simp add: c)
  qed
qed

lemma frame_finish:
  "isExpanded (finish t w) = isExpanded w \<and> isListening (finish t w) = isListening w
   \<and> showModelDropdown (finish t w) = showModelDropdown w
   \<and> selectedModel (finish t w) = selectedModel w"
  by (simp add: finish_def onSendMessage_def onChange_def Let_def)

lemma frame_loadend:
  "isExpanded (loadend k w) = isExpanded w \<and> isListening (loadend k w) = isListening w
   \<and> showModelDropdown (loadend k w) = showModelDropdown w
   \<and> selectedModel (loadend k w) = selectedModel w"
  by (simp add: loadend_def frame_finish Let_def split: list.splits option.splits)

lemma frame_loadends:
  "isExpanded (loadends k n w) = isExpanded w \<and> isListening (loadends k n w) = isListening w
   \<and> showModelDropdown (loadends k n w) = showModelDropdown w
   \<and> selectedModel (loadends k n w) = selectedModel w"
  by (induction n arbitrary: w) (simp_all add: frame_loadend)

lemma frame_handleSend:
  "isExpanded (handleSend w) = isExpanded w \<and> isListening (handleSend w) = isListening w
   \<and> showModelDropdown (handleSend w) = showModelDropdown w
   \<and> selectedModel (handleSend w) = selectedModel w"
  by (simp add: handleSend_def frame_finish Let_def)

lemma split_no_sep: "sep \<notin> set s \<Longrightarrow> split sep s = [s]"
  by (induction s) auto

lemma split_first_sep: "sep \<notin> set p \<Longrightarrow> split sep (p @ sep # s) = p # split sep s"
  by (induction p) auto

text \<open>
  The part of a data URL after its comma, which \<open>encode\<close> takes as payload: the
  base64 text, when neither the header nor the text has a comma.
\<close>

lemma split_data_url:
  "0x2C \<notin> set header \<Longrightarrow> 0x2C \<notin> set base64 \<Longrightarrow>
   at_index (split 0x2C (header @ 0x2C # base64)) 1 = Some base64"
  by (simp add: split_first_sep split_no_sep at_index_def)

lemma trim_Nil: "trim [] = []"
  by (simp add: trim_def)

lemma createObjectURLs_frame:
  "createObjectURLs fs w = (us, w') \<Longrightarrow>
   length us = length fs \<and> selectedImages w' = selectedImages w
   \<and> imagePreviews w' = imagePreviews w"
proof (induction fs arbitrary: w us w')
  case Nil
  then show ?case by simp
next
  case (Cons f fs)
  obtain us1 w1 where r: "createObjectURLs fs (snd (createObjectURL f w)) = (us1, w1)"
    by (cases "createObjectURLs fs (snd (createObjectURL f w))")
  from Cons.IH [OF r] Cons.prems r show ?case
    by (auto simp: createObjectURL_def split: prod.splits)
qed

lemma paired_handleImageSelect:
  "attachments_paired w \<Longrightarrow> attachments_paired (handleImageSelect fl w)"
proof (cases fl)
  case None
  then show "attachments_paired w \<Longrightarrow> ?thesis" by (simp add: handleImageSelect_def)
next
  case (Some files)
  assume p: "attachments_paired w"
  obtain us w' where
    r: "createObjectURLs files (w\<lparr>selectedImages := selectedImages w @ files\<rparr>) = (us, w')"
    by (cases "createObjectURLs files (w\<lparr>selectedImages := selectedImages w @ files\<rparr>)")
  from createObjectURLs_frame [OF r] p Some r show ?thesis
    by (simp add: handleImageSelect_def attachments_paired_def)
qed

lemma length_filter_index:
  "length xs = length ys \<Longrightarrow> length (filter_index p k xs) = length (filter_index p k ys)"
  by (induction xs ys arbitrary: k rule: list_induct2) auto

lemma paired_removeImage:
  "attachments_paired w \<Longrightarrow> attachments_paired (removeImage index w)"
  by (auto simp: attachments_paired_def removeImage_def revokeObjectURL_def Let_def
           intro: length_filter_index split: option.splits)

lemma paired_finish: "attachments_paired (finish t w)"
  by (simp add: attachments_paired_def finish_def Let_def)

lemma paired_handleSend: "attachments_paired w \<Longrightarrow> attachments_paired (handleSend w)"
  using paired_finish [unfolded attachments_paired_def]
  by (simp add: handleSend_def Let_def attachments_paired_def)

lemma paired_loadend: "attachments_paired w \<Longrightarrow> attachments_paired (loadend k w)"
  using paired_finish [unfolded attachments_paired_def]
  by (simp add: loadend_def Let_def attachments_paired_def split: list.splits option.splits)

text \<open>In every reachable state each attachment has its preview.\<close>

lemma reachable_paired: "reachable w \<Longrightarrow> attachments_paired w"
proof (induction rule: reachable.induct)
  case (r_initial m)
  show ?case by (simp add: attachments_paired_def initial_def)
next
  case (r_handleKeyDown w e)
  then show ?case by (simp add: handleKeyDown_def paired_handleSend)
next
  case (r_onresult w r results w')
  then show ?case
    by (auto simp: onresult_def onChange_def attachments_paired_def split: list.splits)
next
  case (r_toggleListening w w')
  then show ?case
    by (auto simp: toggleListening_def attachments_paired_def split: if_splits option.splits)
qed (simp_all add: paired_handleImageSelect paired_removeImage paired_handleSend paired_loadend,
     simp_all add: attachments_paired_def onChange_def heightEffect_def onstart_def onend_def
       onerror_def selectModel_def onModelChange_def toggleExpanded_def toggleModelDropdown_def
       handleClickOutside_def sendCompleted_def recognitionEffect_def)

text \<open>The state of the dictation example is reachable.\<close>

lemma reachable_typed_while_listening: "reachable typed_while_listening"
proof -
  let ?w1 = "recognitionEffect True mounted"
  let ?w2 = "?w1\<lparr>started := [recognizer0]\<rparr>"
  have "reachable ?w1"
    unfolding mounted_def by (intro r_recognitionEffect r_initial)
  moreover have "toggleListening ?w1 = Inr ?w2"
    by (simp add: unfold_all)
  ultimately have "reachable ?w2" by (rule r_toggleListening)
  moreover have "recognizer0 \<in> set (started ?w2)" by simp
  ultimately have "reachable (onstart ?w2)" by (rule r_onstart)
  then show ?thesis
    unfolding typed_while_listening_def listening_def
    by (intro r_recognitionEffect r_onChange)
qed

subsection \<open>The gate of send\<close>

text \<open>
  C3: in every state in which the trimmed draft text is empty and there is no
  attachment, or in which \<^verbatim>\<open>isLoading\<close> is set, \<^verbatim>\<open>handleSend\<close> returns at its first
  line: \<^verbatim>\<open>onSendMessage\<close> is not invoked, no call is left suspended, and the whole
  state, the draft with it, is as before. The handler has no branch that throws.
\<close>

theorem handleSend_gated:
  assumes "(trim (value_prop w) = [] \<and> selectedImages w = []) \<or> isLoading w"
  shows "handleSend w = w \<and> sent (handleSend w) = sent w
         \<and> pending (handleSend w) = pending w
         \<and> value_prop (handleSend w) = value_prop w
         \<and> selectedImages (handleSend w) = selectedImages w
         \<and> imagePreviews (handleSend w) = imagePreviews w"
proof -
  from assms have "gate w" by (auto simp: gate_def)
  then have "handleSend w = w" by (simp add: handleSend_def)
  then show ?thesis by simp
qed

text \<open>
  The empty draft after mounting, and the draft "Hello" while the caller holds
  \<^verbatim>\<open>isLoading\<close>.
\<close>

theorem handleSend_gated_witness:
  "trim (value_prop mounted) = [] \<and> selectedImages mounted = []
   \<and> handleSend mounted = mounted
   \<and> isLoading (hello\<lparr>isLoading := True\<rparr>)
   \<and> handleSend (hello\<lparr>isLoading := True\<rparr>) = hello\<lparr>isLoading := True\<rparr>"
proof -
  have a: "trim (value_prop mounted) = [] \<and> selectedImages mounted = []"
    by (simp add: unfold_all)
  have b: "isLoading (hello\<lparr>isLoading := True\<rparr>)" by simp
  from a have a': "(trim (value_prop mounted) = [] \<and> selectedImages mounted = [])
                   \<or> isLoading mounted" by simp
  from b have b': "(trim (value_prop (hello\<lparr>isLoading := True\<rparr>)) = []
                    \<and> selectedImages (hello\<lparr>isLoading := True\<rparr>) = [])
                   \<or> isLoading (hello\<lparr>isLoading := True\<rparr>)" by simp
  from handleSend_gated [OF a'] handleSend_gated [OF b'] a b show ?thesis by blast
qed

subsection \<open>What send passes to the sender\<close>

text \<open>
  C4, as the code has it: for every call of \<^verbatim>\<open>handleSend\<close> that passes the gate and
  whose attachments are all read successfully, once the \<^verbatim>\<open>loadend\<close> events of its
  reads have arrived (one for each attachment), \<^verbatim>\<open>onSendMessage\<close> has been invoked
  exactly once by that call: with the draft text as first argument and, as second
  argument, the parts of the attachments in order when there is at least one
  attachment, \<^verbatim>\<open>undefined\<close> when there is none.
\<close>

theorem send_invokes_once:
  assumes "\<not> gate w" and "encode_all (selectedImages w) = Some ps"
  shows "sent (loadends (length (pending w)) (length (selectedImages w)) (handleSend w)) =
           sent w @ [(value_prop w, if selectedImages w = [] then None else Some ps)]"
proof (cases "selectedImages w = []")
  case True
  with assms show ?thesis
    by (simp add: handleSend_def sent_finish)
next
  case False
  let ?t = "\<lparr>task_value = value_prop w, task_files = selectedImages w, task_parts = []\<rparr>"
  let ?w' = "w\<lparr>pending := pending w @ [?t]\<rparr>"
  from False assms(1) have hs: "handleSend w = ?w'"
    by (simp add: handleSend_def Let_def)
  have k: "length (pending w) < length (pending ?w')" by simp
  have fs: "task_files (pending ?w' ! length (pending w)) = selectedImages w" by simp
  from encode_all_length [OF assms(2)] False have "ps \<noteq> []" by auto
  with loadends_pending [OF k fs False assms(2)] hs False show ?thesis
    by (simp add: sent_finish)
qed

text \<open>
  The two scenarios: "Hello" with no attachment gives the call ("Hello", undefined);
  an empty text with two attachments gives ("", [payload1, payload2]).
\<close>

theorem send_invokes_once_witness:
  "\<not> gate hello
   \<and> encode_all (selectedImages hello) = Some []
   \<and> sent (loadends 0 0 (handleSend hello)) = [(js ''Hello'', None)]
   \<and> \<not> gate two_images
   \<and> encode_all (selectedImages two_images) =
       Some [InlineData (Some (js ''iVBORw0KGgo='')) (js ''image/png''),
             InlineData (Some (js ''/9j/4AAQ'')) (js ''image/jpeg'')]
   \<and> sent (loadends 0 2 (handleSend two_images)) =
       [([], Some [InlineData (Some (js ''iVBORw0KGgo='')) (js ''image/png''),
                   InlineData (Some (js ''/9j/4AAQ'')) (js ''image/jpeg'')])]"
proof -
  have ga: "\<not> gate hello" by (simp add: unfold_all)
  have ea: "encode_all (selectedImages hello) = Some []" by (simp add: unfold_all)
  have fa: "pending hello = []" "selectedImages hello = []" "sent hello = []"
    "value_prop hello = js ''Hello''"
    by (simp_all add: unfold_all)
  have gb: "\<not> gate two_images" by (simp add: unfold_all)
  have eb: "encode_all (selectedImages two_images) =
       Some [InlineData (Some (js ''iVBORw0KGgo='')) (js ''image/png''),
             InlineData (Some (js ''/9j/4AAQ'')) (js ''image/jpeg'')]"
    by (simp add: unfold_all)
  have fb: "pending two_images = []" "length (selectedImages two_images) = 2"
    "selectedImages two_images \<noteq> []" "sent two_images = []" "value_prop two_images = []"
    by (simp_all add: unfold_all)
  from send_invokes_once [OF ga ea] fa
  have a: "sent (loadends 0 0 (handleSend hello)) = [(js ''Hello'', None)]" by simp
  from send_invokes_once [OF gb eb] fb
  have b: "sent (loadends 0 2 (handleSend two_images)) =
       [([], Some [InlineData (Some (js ''iVBORw0KGgo='')) (js ''image/png''),
                   InlineData (Some (js ''/9j/4AAQ'')) (js ''image/jpeg'')])]" by simp
  from ga ea a gb eb b show ?thesis by blast
qed

text \<open>
  C4 as it is written fails on a call that passes the gate with an attachment whose
  read fails: the \<^verbatim>\<open>loadend\<close> event leaves the call suspended, the state is as it was
  before the event, and \<^verbatim>\<open>onSendMessage\<close> has not been invoked.
\<close>

theorem send_unreadable_never_invokes:
  "\<not> gate one_unreadable
   \<and> loadend 0 (handleSend one_unreadable) = handleSend one_unreadable
   \<and> sent (loadend 0 (handleSend one_unreadable)) = []"
  by (simp add: unfold_all)

subsection \<open>Double submit\<close>

text \<open>
  C1 says that a second call of send before the first has completed leaves exactly
  one invocation of the sender, for every draft with at least one attachment. The
  code at a draft with one attachment and \<^verbatim>\<open>isLoading\<close> false: the first call is
  suspended on the read of the file, \<^verbatim>\<open>isLoading\<close> is still false, so the second call
  passes the gate as well; when the two reads have finished, \<^verbatim>\<open>onSendMessage\<close> has
  been invoked twice, with the same arguments.
\<close>

theorem double_send_invokes_twice:
  "\<not> isLoading one_image
   \<and> pending (handleSend one_image) \<noteq> []
   \<and> \<not> isLoading (handleSend one_image)
   \<and> sent (loadend 0 (loadend 0 (handleSend (handleSend one_image)))) =
       [([], Some [InlineData (Some (js ''iVBORw0KGgo='')) (js ''image/png'')]),
        ([], Some [InlineData (Some (js ''iVBORw0KGgo='')) (js ''image/png'')])]"
  by (simp add: unfold_all)

subsection \<open>The draft after a send\<close>

text \<open>
  C2 says that after a successful send the draft text is empty, the attachment list
  is empty and every preview URL of the sent attachments has been revoked. The code
  at a draft with one attachment, whose preview is the object URL 0: after the send
  the text and both lists are empty, but the object URL 0 is still registered;
  \<^verbatim>\<open>handleSend\<close> never calls \<^verbatim>\<open>URL.revokeObjectURL\<close>, which \<^verbatim>\<open>removeImage\<close> does for the
  same attachment.
\<close>

theorem send_leaves_preview_url:
  "imagePreviews one_image = [0] \<and> objectURLs one_image = {0}
   \<and> sent (loadend 0 (handleSend one_image)) =
       [([], Some [InlineData (Some (js ''iVBORw0KGgo='')) (js ''image/png'')])]
   \<and> value_prop (loadend 0 (handleSend one_image)) = []
   \<and> selectedImages (loadend 0 (handleSend one_image)) = []
   \<and> imagePreviews (loadend 0 (handleSend one_image)) = []
   \<and> 0 \<in> objectURLs (loadend 0 (handleSend one_image))
   \<and> objectURLs (removeImage 0 one_image) = {}"
  by (simp add: unfold_all removeImage_def revokeObjectURL_def)

subsection \<open>Height of the textarea\<close>

text \<open>
  C5, as the code has it: the height is 480px when the input is expanded, whatever
  the text; 40px when it is not expanded and the text is empty or only white space;
  otherwise the minimum of the content-driven height (the \<^verbatim>\<open>scrollHeight\<close> that is
  measured) and the cap of 180px. That height is never above the cap and is the cap
  when the content-driven height reaches it; it is at least the minimum of 40px
  exactly when the content-driven height is; and it does not decrease when the
  content-driven height grows.
\<close>

theorem newHeight_rules:
  "(expanded \<longrightarrow> newHeight expanded v sh = 480)
 \<and> (\<not> expanded \<and> (v = [] \<or> trim v = []) \<longrightarrow> newHeight expanded v sh = 40)
 \<and> (\<not> expanded \<and> v \<noteq> [] \<and> trim v \<noteq> [] \<longrightarrow>
      newHeight expanded v sh = min sh 180 \<and> newHeight expanded v sh \<le> 180
      \<and> (180 \<le> sh \<longrightarrow> newHeight expanded v sh = 180)
      \<and> (40 \<le> newHeight expanded v sh \<longleftrightarrow> 40 \<le> sh))
 \<and> (\<not> expanded \<and> trim v \<noteq> [] \<and> trim v' \<noteq> [] \<and> sh \<le> sh' \<longrightarrow>
      newHeight expanded v sh \<le> newHeight expanded v' sh')"
proof -
  have 1: "newHeight expanded v sh = 480" if "expanded"
    using that by (simp add: newHeight_def)
  have 2: "newHeight expanded v sh = 40" if "\<not> expanded" "v = [] \<or> trim v = []"
    using that by (simp add: newHeight_def)
  have 3: "newHeight expanded v sh = min sh 180" if "\<not> expanded" "trim v \<noteq> []" for v sh
  proof -
    from that(2) have "v \<noteq> []" using trim_Nil by auto
    with that show ?thesis by (simp add: newHeight_def)
  qed
  have 4: "newHeight expanded v sh \<le> newHeight expanded v' sh'"
    if "\<not> expanded" "trim v \<noteq> []" "trim v' \<noteq> []" "sh \<le> sh'"
    using that 3 [of v sh] 3 [of v' sh'] by simp
  have 5: "180 \<le> sh \<longrightarrow> newHeight expanded v sh = 180" if "\<not> expanded" "trim v \<noteq> []"
    using 3 [OF that] by simp
  have 6: "40 \<le> newHeight expanded v sh \<longleftrightarrow> 40 \<le> sh" if "\<not> expanded" "trim v \<noteq> []"
    using 3 [OF that] by simp
  from 1 2 3 [of v sh] 4 5 6 show ?thesis by simp
qed

theorem newHeight_rules_witness:
  "newHeight True (js ''Hello'') 64 = 480
 \<and> trim (js '' '') = [] \<and> newHeight False (js '' '') 40 = 40
 \<and> js ''Hello'' \<noteq> [] \<and> trim (js ''Hello'') \<noteq> []
 \<and> newHeight False (js ''Hello'') 64 = 64
 \<and> newHeight False (js ''Hello'') 64 \<le> 180
 \<and> 40 \<le> newHeight False (js ''Hello'') 64
 \<and> trim eight_lines \<noteq> []
 \<and> newHeight False eight_lines 208 = 180
 \<and> newHeight False (js ''Hello'') 64 \<le> newHeight False eight_lines 208"
proof -
  have a: "trim (js '' '') = []" by (simp add: unfold_all)
  have b: "js ''Hello'' \<noteq> []" "trim (js ''Hello'') \<noteq> []" "trim eight_lines \<noteq> []"
    "eight_lines \<noteq> []"
    by (simp_all add: unfold_all)
  from newHeight_rules [of True "js ''Hello''" 64]
  have 1: "newHeight True (js ''Hello'') 64 = 480" by simp
  from newHeight_rules [of False "js '' ''" 40] a
  have 2: "newHeight False (js '' '') 40 = 40" by simp
  from newHeight_rules [of False "js ''Hello''" 64 eight_lines 208] b
  have 3: "newHeight False (js ''Hello'') 64 = 64 \<and> newHeight False (js ''Hello'') 64 \<le> 180
     \<and> 40 \<le> newHeight False (js ''Hello'') 64
     \<and> newHeight False (js ''Hello'') 64 \<le> newHeight False eight_lines 208" by simp
  from newHeight_rules [of False eight_lines 208] b
  have 4: "newHeight False eight_lines 208 = 180" by simp
  from 1 2 3 4 a b show ?thesis by blast
qed

text \<open>
  C5 as it is written fails in each of its bounds and in its monotonicity. A text of
  one line, measured at 40px, gets the minimum itself, and a text of eight lines,
  measured at 208px, gets the cap itself: neither height is strictly between the two.
  A text whose textarea is not laid out measures 0px and gets 0px, below the minimum.
  And the height follows the measured height, not the length of the content: the
  eight lines are shorter than the one long line, which is measured at 40px, and get
  the greater height.
\<close>

theorem newHeight_not_between_nor_monotone:
  "trim (js ''Hello'') \<noteq> [] \<and> trim eight_lines \<noteq> [] \<and> trim one_long_line \<noteq> []
 \<and> \<not> (40 < newHeight False (js ''Hello'') 40 \<and> newHeight False (js ''Hello'') 40 < 180)
 \<and> \<not> (40 < newHeight False eight_lines 208 \<and> newHeight False eight_lines 208 < 180)
 \<and> newHeight False (js ''Hello'') 0 < 40
 \<and> length eight_lines \<le> length one_long_line
 \<and> \<not> (newHeight False eight_lines 208 \<le> newHeight False one_long_line 40)"
  by (simp add: newHeight_def unfold_all)

subsection \<open>Dictation\<close>

text \<open>
  C6 says that a final transcript delivered while the draft text is \<open>s\<close> gives the
  draft text \<open>s\<close>, a space and the transcript when \<open>s\<close> is not empty. The code, when
  dictation is started on the empty draft and "abc" is typed while the recognizer
  listens: the draft text is "abc" when the transcript "world" is delivered, but the
  handler that runs is that of the started recognizer, which captured the empty
  \<^verbatim>\<open>value\<close>; it calls \<^verbatim>\<open>onChange('world')\<close>, and the typed text is replaced, where
  the claim gives "abc world". The recognizer that captured "abc" is the one in
  \<^verbatim>\<open>recognitionRef.current\<close>, which was never started.
\<close>

theorem dictation_replaces_typed_text:
  "toggleListening (recognitionEffect True mounted) =
     Inr ((recognitionEffect True mounted)\<lparr>started := [recognizer0]\<rparr>)
   \<and> value_prop typed_while_listening = js ''abc''
   \<and> started typed_while_listening = [recognizer0]
   \<and> recognitionRef typed_while_listening = Some \<lparr>rec_id = 1, rec_value = js ''abc''\<rparr>
   \<and> onresult recognizer0 [[js ''world'']] typed_while_listening =
       Inr (typed_while_listening\<lparr>value_prop := js ''world''\<rparr>)
   \<and> js ''world'' \<noteq> js ''abc'' @ js '' '' @ js ''world''"
  by (simp add: unfold_all)

subsection \<open>Model selector\<close>

text \<open>
  C7: the displayed name is the display name of the registry entry whose id is the
  selected model, and the fixed default \<^verbatim>\<open>'gemma-3-27b-it'\<close> when no entry has that id;
  selecting a dropdown entry sets the selected model to the id of the entry and closes
  the dropdown, and the name displayed afterwards is the name of that entry.
\<close>

theorem selectedModelName_registry:
  "(m \<in> set GEMINI_MODELS \<longrightarrow> selectedModelName (model_id m) = model_name m)
 \<and> (sel \<notin> model_id ` set GEMINI_MODELS \<longrightarrow> selectedModelName sel = js ''gemma-3-27b-it'')
 \<and> (m \<in> set GEMINI_MODELS \<longrightarrow>
       selectedModel (selectModel m w) = model_id m
     \<and> \<not> showModelDropdown (selectModel m w)
     \<and> selectedModelName (selectedModel (selectModel m w)) = model_name m)"
  by (auto simp: selectedModelName_def GEMINI_MODELS_def selectModel_def onModelChange_def js_def)

theorem selectedModelName_registry_witness:
  "\<lparr>model_id = js ''gemini-2.0-flash-exp'', model_name = js ''Gemini 2.0 Flash Exp''\<rparr>
     \<in> set GEMINI_MODELS
   \<and> selectedModelName (js ''gemini-2.0-flash-exp'') = js ''Gemini 2.0 Flash Exp''
   \<and> js ''gpt-4'' \<notin> model_id ` set GEMINI_MODELS
   \<and> selectedModelName (js ''gpt-4'') = js ''gemma-3-27b-it''
   \<and> selectedModel (selectModel
        \<lparr>model_id = js ''gemini-2.0-flash-exp'', model_name = js ''Gemini 2.0 Flash Exp''\<rparr>
        (mounted\<lparr>showModelDropdown := True\<rparr>)) = js ''gemini-2.0-flash-exp''
   \<and> \<not> showModelDropdown (selectModel
        \<lparr>model_id = js ''gemini-2.0-flash-exp'', model_name = js ''Gemini 2.0 Flash Exp''\<rparr>
        (mounted\<lparr>showModelDropdown := True\<rparr>))
   \<and> selectedModelName (selectedModel (selectModel
        \<lparr>model_id = js ''gemini-2.0-flash-exp'', model_name = js ''Gemini 2.0 Flash Exp''\<rparr>
        (mounted\<lparr>showModelDropdown := True\<rparr>))) = js ''Gemini 2.0 Flash Exp''"
proof -
  let ?m = "\<lparr>model_id = js ''gemini-2.0-flash-exp'', model_name = js ''Gemini 2.0 Flash Exp''\<rparr>"
  have a: "?m \<in> set GEMINI_MODELS" by (simp add: GEMINI_MODELS_def)
  have b: "js ''gpt-4'' \<notin> model_id ` set GEMINI_MODELS" by (simp add: GEMINI_MODELS_def js_def)
  from selectedModelName_registry [of ?m "js ''gpt-4''" "mounted\<lparr>showModelDropdown := True\<rparr>"] a b
  show ?thesis by simp
qed

subsection \<open>Removing an attachment\<close>

text \<open>
  C8: in a state where each attachment has its preview (every reachable state, by
  \<open>reachable_paired\<close>), \<^verbatim>\<open>removeImage\<close> at an index outside the attachment list
  changes nothing at all, and it has no branch that throws; at an index inside the
  list it removes the attachment and the preview at that index and revokes the object
  URL of that preview.
\<close>

theorem removeImage_index:
  assumes "attachments_paired w"
  shows "(index < 0 \<or> int (length (selectedImages w)) \<le> index \<longrightarrow> removeImage index w = w)
       \<and> (0 \<le> index \<and> index < int (length (selectedImages w)) \<longrightarrow>
            selectedImages (removeImage index w) =
              take (nat index) (selectedImages w) @ drop (Suc (nat index)) (selectedImages w)
          \<and> imagePreviews (removeImage index w) =
              take (nat index) (imagePreviews w) @ drop (Suc (nat index)) (imagePreviews w)
          \<and> objectURLs (removeImage index w) = objectURLs w - {imagePreviews w ! nat index})"
proof -
  from assms have len: "length (imagePreviews w) = length (selectedImages w)"
    by (simp add: attachments_paired_def)
  have out: "removeImage index w = w"
    if "index < 0 \<or> int (length (selectedImages w)) \<le> index"
    using that len
    by (auto simp: removeImage_def revokeObjectURL_def at_index_def filter_index_outside)
  have inside: "selectedImages (removeImage index w) =
              take (nat index) (selectedImages w) @ drop (Suc (nat index)) (selectedImages w)
          \<and> imagePreviews (removeImage index w) =
              take (nat index) (imagePreviews w) @ drop (Suc (nat index)) (imagePreviews w)
          \<and> objectURLs (removeImage index w) = objectURLs w - {imagePreviews w ! nat index}"
    if "0 \<le> index \<and> index < int (length (selectedImages w))"
    using that len
    by (simp add: removeImage_def revokeObjectURL_def at_index_def filter_index_inside Let_def)
  from out inside show ?thesis by blast
qed

theorem removeImage_index_witness:
  "attachments_paired two_images
   \<and> selectedImages two_images = [png, jpeg] \<and> imagePreviews two_images = [0, 1]
   \<and> objectURLs two_images = {0, 1}
   \<and> removeImage 2 two_images = two_images
   \<and> removeImage (- 1) two_images = two_images
   \<and> selectedImages (removeImage 0 two_images) = [jpeg]
   \<and> imagePreviews (removeImage 0 two_images) = [1]
   \<and> objectURLs (removeImage 0 two_images) = {1}"
proof -
  have p: "attachments_paired two_images" by (simp add: attachments_paired_def unfold_all)
  have f: "selectedImages two_images = [png, jpeg]" "imagePreviews two_images = [0, 1]"
    "objectURLs two_images = {0, 1}"
    by (auto simp: unfold_all)
  from removeImage_index [OF p, of 2] f have a: "removeImage 2 two_images = two_images" by simp
  from removeImage_index [OF p, of "- 1"] f have b: "removeImage (- 1) two_images = two_images"
    by simp
  from removeImage_index [OF p, of 0] f
  have c: "selectedImages (removeImage 0 two_images) = [jpeg]
   \<and> imagePreviews (removeImage 0 two_images) = [1]
   \<and> objectURLs (removeImage 0 two_images) = {1}" by auto
  from p f a b c show ?thesis by blast
qed

subsection \<open>Keyboard\<close>

text \<open>
  C9: on a key event of the textarea, Enter without Shift calls
  \<^verbatim>\<open>preventDefault\<close> and \<^verbatim>\<open>handleSend\<close>; Enter with Shift, and every other key, does
  neither: the state is unchanged and the default action of the key (for Enter, the
  browser inserting the newline) is not prevented.
\<close>

theorem handleKeyDown_enter:
  "(key e = js ''Enter'' \<and> \<not> shiftKey e \<longrightarrow> handleKeyDown e w = (True, handleSend w))
 \<and> (key e = js ''Enter'' \<and> shiftKey e \<longrightarrow> handleKeyDown e w = (False, w))
 \<and> (key e \<noteq> js ''Enter'' \<longrightarrow> handleKeyDown e w = (False, w))"
  by (simp add: handleKeyDown_def)

theorem handleKeyDown_enter_witness:
  "handleKeyDown \<lparr>key = js ''Enter'', shiftKey = False\<rparr> hello = (True, handleSend hello)
   \<and> sent (handleSend hello) = [(js ''Hello'', None)]
   \<and> handleKeyDown \<lparr>key = js ''Enter'', shiftKey = True\<rparr> hello = (False, hello)
   \<and> js ''a'' \<noteq> js ''Enter''
   \<and> handleKeyDown \<lparr>key = js ''a'', shiftKey = False\<rparr> hello = (False, hello)
   \<and> sent hello = []"
proof -
  have a: "js ''a'' \<noteq> js ''Enter''" by (simp add: js_def)
  have b: "sent (handleSend hello) = [(js ''Hello'', None)]" "sent hello = []"
    by (simp_all add: unfold_all)
  from handleKeyDown_enter [of "\<lparr>key = js ''Enter'', shiftKey = False\<rparr>" hello]
  have 1: "handleKeyDown \<lparr>key = js ''Enter'', shiftKey = False\<rparr> hello = (True, handleSend hello)"
    by simp
  from handleKeyDown_enter [of "\<lparr>key = js ''Enter'', shiftKey = True\<rparr>" hello]
  have 2: "handleKeyDown \<lparr>key = js ''Enter'', shiftKey = True\<rparr> hello = (False, hello)"
    by simp
  from handleKeyDown_enter [of "\<lparr>key = js ''a'', shiftKey = False\<rparr>" hello] a
  have 3: "handleKeyDown \<lparr>key = js ''a'', shiftKey = False\<rparr> hello = (False, hello)"
    by simp
  from a b 1 2 3 show ?thesis by blast
qed

subsection \<open>What send leaves alone\<close>

text \<open>
  C10: a call of \<^verbatim>\<open>handleSend\<close>, gated or not, and any number of \<^verbatim>\<open>loadend\<close> events
  that resume it afterwards, leave the expanded flag, the listening flag, the
  dropdown-open flag and the selected model as they were before the call.
\<close>

theorem handleSend_frame:
  "isExpanded (handleSend w) = isExpanded w
   \<and> isListening (handleSend w) = isListening w
   \<and> showModelDropdown (handleSend w) = showModelDropdown w
   \<and> selectedModel (handleSend w) = selectedModel w
   \<and> isExpanded (loadends k n (handleSend w)) = isExpanded w
   \<and> isListening (loadends k n (handleSend w)) = isListening w
   \<and> showModelDropdown (loadends k n (handleSend w)) = showModelDropdown w
   \<and> selectedModel (loadends k n (handleSend w)) = selectedModel w"
  by (simp add: frame_handleSend frame_loadends)

end
